theory Spec2Isabelle
  imports Main
begin

section \<open>Python values that reach the driver\<close>

text \<open>
  The driver \<^verbatim>\<open>labgrid/driver/power/eaton.py\<close> is dynamically typed: \<^verbatim>\<open>port\<close>,
  \<^verbatim>\<open>index\<close> and \<^verbatim>\<open>value\<close> may be any Python object. The values modelled are
  \<^verbatim>\<open>None\<close>, booleans, unbounded integers, floats and strings. A finite float is the
  dyadic rational \<open>m * 2 ^ e\<close> (every IEEE double is one); the two infinities and
  the NaNs are kept apart because the built-in \<^verbatim>\<open>int()\<close> raises on them.
\<close>

datatype pyfloat = Finite int int | Infinite | NaN

datatype pyval = PyNone | PyBool bool | PyInt int | PyFloat pyfloat | PyStr string

text \<open>
  Exceptions are values. \<open>AssertionError\<close> is what a failed \<^verbatim>\<open>assert\<close> raises (the
  contract failure of the specification), \<open>ExecutionError\<close> is labgrid's own exception
  with its message (the protocol failure of the specification), \<open>HlapiError\<close> stands for
  any exception that comes out of the pysnmp library, with a description, and the others
  are the built-in exceptions of \<^verbatim>\<open>int()\<close> and of indexing.
\<close>

datatype exn =
    AssertionError
  | TypeError
  | ValueError
  | OverflowError
  | IndexError
  | HlapiError string
  | ExecutionError string

subsection \<open>The built-in \<^verbatim>\<open>int()\<close>\<close>

text \<open>\<^verbatim>\<open>int(x)\<close> of a finite float truncates towards zero.\<close>

definition trunc_float :: "int \<Rightarrow> int \<Rightarrow> int" where
  "trunc_float m e =
     (if 0 \<le> e then m * 2 ^ nat e
      else if 0 \<le> m then m div 2 ^ nat (- e)
      else - ((- m) div 2 ^ nat (- e)))"

text \<open>
  \<^verbatim>\<open>int(s)\<close> of a string, base ten: surrounding white space is dropped, one sign is
  allowed, then at least one decimal digit, with single underscores between digits.
  A character is a code point below 256: the white space there is 9 to 13, 32, 133 and
  160, the decimal digits are 48 to 57. The interpreter's configurable limit on the
  number of digits is not part of the model.
\<close>

definition is_space :: "char \<Rightarrow> bool" where
  "is_space c = (let k = (of_char c :: nat) in (9 \<le> k \<and> k \<le> 13) \<or> k = 32 \<or> k = 133 \<or> k = 160)"

definition is_digit :: "char \<Rightarrow> bool" where
  "is_digit c = (let k = (of_char c :: nat) in 48 \<le> k \<and> k \<le> 57)"

definition digit_val :: "char \<Rightarrow> nat" where
  "digit_val c = of_char c - 48"

fun parse_digits :: "nat \<Rightarrow> bool \<Rightarrow> string \<Rightarrow> nat option" where
  "parse_digits acc prev [] = (if prev then Some acc else None)"
| "parse_digits acc prev (c # cs) =
     (if is_digit c then parse_digits (10 * acc + digit_val c) True cs
      else if c = CHR ''_'' \<and> prev then parse_digits acc False cs
      else None)"

definition strip :: "string \<Rightarrow> string" where
  "strip s = rev (dropWhile is_space (rev (dropWhile is_space s)))"

definition int_of_str :: "string \<Rightarrow> int option" where
  "int_of_str s =
     (case strip s of
        [] \<Rightarrow> None
      | c # r \<Rightarrow>
          if c = CHR ''-'' then map_option (\<lambda>n. - int n) (parse_digits 0 False r)
          else if c = CHR ''+'' then map_option int (parse_digits 0 False r)
          else map_option int (parse_digits 0 False (c # r)))"

fun py_int :: "pyval \<Rightarrow> exn + int" where
  "py_int PyNone = Inl TypeError"
| "py_int (PyBool b) = Inr (if b then 1 else 0)"
| "py_int (PyInt i) = Inr i"
| "py_int (PyFloat (Finite m e)) = Inr (trunc_float m e)"
| "py_int (PyFloat Infinite) = Inl OverflowError"
| "py_int (PyFloat NaN) = Inl ValueError"
| "py_int (PyStr s) = (case int_of_str s of None \<Rightarrow> Inl ValueError | Some i \<Rightarrow> Inr i)"

subsection \<open>\<^verbatim>\<open>str.format\<close> of an integer\<close>

definition digit_chr :: "nat \<Rightarrow> char" where
  "digit_chr d = char_of (48 + d)"

fun py_str_nat :: "nat \<Rightarrow> string" where
  "py_str_nat n =
     (if 10 \<le> n then py_str_nat (n div 10) @ [digit_chr (n mod 10)] else [digit_chr n])"

definition py_str :: "int \<Rightarrow> string" where
  "py_str i = (if i < 0 then CHR ''-'' # py_str_nat (nat (- i)) else py_str_nat (nat i))"

section \<open>The pysnmp library as environment\<close>

text \<open>
  The driver reaches the network through six entry points of \<^verbatim>\<open>pysnmp.hlapi\<close> only:
  the four constructors called by \<^verbatim>\<open>_Snmp.__init__\<close>, and \<^verbatim>\<open>getCmd\<close> and
  \<^verbatim>\<open>setCmd\<close>, each followed by \<^verbatim>\<open>next(g)\<close>. Every one of them either raises or
  returns. The objects the constructors return are opaque to the driver. \<^verbatim>\<open>next(g)\<close>
  returns the tuple \<^verbatim>\<open>(errorIndication, errorStatus, errorIndex, varBinds)\<close>; the variable
  bindings are pairs of an object identifier and a value, the values being integers.
  What the library answers is a parameter of the model. The arguments of an exchange are
  the host and the community of the session, the object identifier and, for a write, the
  value.
\<close>

datatype 'a reply = Raises string | Returns 'a

type_synonym response = "string option \<times> int \<times> int \<times> (string \<times> int) list"

record hlapi =
  SnmpEngine :: "unit reply"
  UdpTransportTarget :: "string \<times> nat \<Rightarrow> unit reply"
  CommunityData :: "string \<Rightarrow> nat \<Rightarrow> unit reply"
  ContextData :: "unit reply"
  getCmd :: "string \<Rightarrow> string \<Rightarrow> string \<Rightarrow> response reply"
  setCmd :: "string \<Rightarrow> string \<Rightarrow> string \<Rightarrow> int \<Rightarrow> response reply"

text \<open>
  A run is observed through the calls it makes into the library, in order and with
  their arguments.
\<close>

datatype event =
    NewEngine
  | NewTransport string nat
  | NewCommunity string nat
  | NewContext
  | GetCmd string string string
  | SetCmd string string string int

text \<open>
  A computation yields the calls it made and its outcome: \<open>Inl\<close> an exception, \<open>Inr\<close>
  the value returned. \<open>and_then\<close> is the sequencing of two statements, the second of
  which is not run when the first raises.
\<close>

type_synonym 'a run = "event list \<times> (exn + 'a)"

definition and_then :: "'a run \<Rightarrow> ('a \<Rightarrow> 'b run) \<Rightarrow> 'b run" where
  "and_then m f =
     (case m of
        (t, Inl e) \<Rightarrow> (t, Inl e)
      | (t, Inr x) \<Rightarrow> (case f x of (t', r) \<Rightarrow> (t @ t', r)))"

definition returns :: "'a \<Rightarrow> 'a run" where
  "returns x = ([], Inr x)"

definition raises :: "exn \<Rightarrow> 'a run" where
  "raises e = ([], Inl e)"

definition builtin :: "exn + 'a \<Rightarrow> 'a run" where
  "builtin r = ([], r)"

definition py_assert :: "bool \<Rightarrow> unit run" where
  "py_assert c = (if c then returns () else raises AssertionError)"

text \<open>A call into the library is recorded when it is made, whatever it answers.\<close>

definition library_call :: "event \<Rightarrow> 'a reply \<Rightarrow> 'a run" where
  "library_call ev r = ([ev], case r of Raises d \<Rightarrow> Inl (HlapiError d) | Returns x \<Rightarrow> Inr x)"

definition hlapi_SnmpEngine :: "hlapi \<Rightarrow> unit run" where
  "hlapi_SnmpEngine lib = library_call NewEngine (SnmpEngine lib)"

definition hlapi_UdpTransportTarget :: "hlapi \<Rightarrow> string \<times> nat \<Rightarrow> unit run" where
  "hlapi_UdpTransportTarget lib addr =
     library_call (NewTransport (fst addr) (snd addr)) (UdpTransportTarget lib addr)"

definition hlapi_CommunityData :: "hlapi \<Rightarrow> string \<Rightarrow> nat \<Rightarrow> unit run" where
  "hlapi_CommunityData lib comm mpModel =
     library_call (NewCommunity comm mpModel) (CommunityData lib comm mpModel)"

definition hlapi_ContextData :: "hlapi \<Rightarrow> unit run" where
  "hlapi_ContextData lib = library_call NewContext (ContextData lib)"

definition hlapi_getCmd :: "hlapi \<Rightarrow> string \<Rightarrow> string \<Rightarrow> string \<Rightarrow> response run" where
  "hlapi_getCmd lib host comm oid = library_call (GetCmd host comm oid) (getCmd lib host comm oid)"

definition hlapi_setCmd :: "hlapi \<Rightarrow> string \<Rightarrow> string \<Rightarrow> string \<Rightarrow> int \<Rightarrow> response run" where
  "hlapi_setCmd lib host comm oid v =
     library_call (SetCmd host comm oid v) (setCmd lib host comm oid v)"

section \<open>The driver\<close>

definition OID :: string where
  "OID = ''.1.3.6.1.4.1.534.6.6.7.6.6.1''"

definition NUMBER_OF_OUTLETS :: int where
  "NUMBER_OF_OUTLETS = 16"

text \<open>
  Class \<^verbatim>\<open>_Snmp\<close>. The object keeps what its later calls pass on: the target
  \<^verbatim>\<open>(host, 161)\<close> and the community.
\<close>

record Snmp =
  transport :: "string \<times> nat"
  community :: string

text \<open>
  \<^verbatim>\<open>_Snmp.__init__\<close>: \<^verbatim>\<open>SnmpEngine()\<close>, \<^verbatim>\<open>UdpTransportTarget((host, 161))\<close>,
  \<^verbatim>\<open>CommunityData(community, mpModel=0)\<close>, \<^verbatim>\<open>ContextData()\<close>, in this order.
\<close>

definition Snmp_init :: "hlapi \<Rightarrow> string \<Rightarrow> string \<Rightarrow> Snmp run" where
  "Snmp_init lib host comm =
     and_then (hlapi_SnmpEngine lib) (\<lambda>engine.
     and_then (hlapi_UdpTransportTarget lib (host, 161)) (\<lambda>target.
     and_then (hlapi_CommunityData lib comm 0) (\<lambda>cdata.
     and_then (hlapi_ContextData lib) (\<lambda>context.
     returns \<lparr>transport = (host, 161), community = comm\<rparr>))))"

text \<open>\<^verbatim>\<open>_Snmp.get\<close>: \<^verbatim>\<open>_,_,_, res = next(g); return res[0][1]\<close>.\<close>

definition Snmp_get :: "hlapi \<Rightarrow> Snmp \<Rightarrow> string \<Rightarrow> int run" where
  "Snmp_get lib self oid =
     and_then (hlapi_getCmd lib (fst (transport self)) (community self) oid)
       (\<lambda>(errorIndication, errorStatus, errorIndex, res).
          case res of [] \<Rightarrow> raises IndexError | vb # _ \<Rightarrow> returns (snd vb))"

text \<open>\<^verbatim>\<open>_Snmp.set\<close>: \<^verbatim>\<open>next(g)\<close>, whose result is dropped.\<close>

definition Snmp_set :: "hlapi \<Rightarrow> Snmp \<Rightarrow> string \<Rightarrow> int \<Rightarrow> unit run" where
  "Snmp_set lib self oid v =
     and_then (hlapi_setCmd lib (fst (transport self)) (community self) oid v)
       (\<lambda>dropped. returns ())"

text \<open>The two format expressions of the source.\<close>

definition outlet_control_oid :: "int \<Rightarrow> int \<Rightarrow> string" where
  "outlet_control_oid ident index = OID @ ''.'' @ py_str ident @ ''.0.'' @ py_str index"

definition output_status_oid :: "int \<Rightarrow> string" where
  "output_status_oid index = OID @ ''.2.0.'' @ py_str index"

definition power_set :: "hlapi \<Rightarrow> string \<Rightarrow> pyval \<Rightarrow> pyval \<Rightarrow> pyval \<Rightarrow> unit run" where
  "power_set lib host port index val =
     and_then (py_assert (port = PyNone)) (\<lambda>_.
     and_then (builtin (py_int index)) (\<lambda>i.
     and_then (py_assert (1 \<le> i \<and> i \<le> NUMBER_OF_OUTLETS)) (\<lambda>_.
     and_then (Snmp_init lib host ''public'') (\<lambda>snmp.
     and_then (builtin (py_int val)) (\<lambda>v.
       let ident = (if v \<noteq> 0 then 4 else 3);
           oid = outlet_control_oid ident i
       in Snmp_set lib snmp oid 1)))))"

definition power_get :: "hlapi \<Rightarrow> string \<Rightarrow> pyval \<Rightarrow> pyval \<Rightarrow> bool run" where
  "power_get lib host port index =
     and_then (py_assert (port = PyNone)) (\<lambda>_.
     and_then (builtin (py_int index)) (\<lambda>i.
     and_then (py_assert (1 \<le> i \<and> i \<le> NUMBER_OF_OUTLETS)) (\<lambda>_.
     and_then (Snmp_init lib host ''public'') (\<lambda>snmp.
       let oid = output_status_oid i in
       and_then (Snmp_get lib snmp oid) (\<lambda>v.
         if v = 1 then returns True
         else if v = 0 then returns False
         else if v = 3 then returns True
         else if v = 2 then returns False
         else raises (ExecutionError ''failed to get SNMP value''))))))"

section \<open>Test doubles\<close>

text \<open>
  A library whose constructors return, that answers every read with the raw value \<open>v\<close>
  and acknowledges every write; one whose constructors return and whose every exchange
  raises; and one that cannot build the transport target.
\<close>

definition lib_answering :: "int \<Rightarrow> hlapi" where
  "lib_answering v =
     \<lparr>SnmpEngine = Returns (),
      UdpTransportTarget = (\<lambda>addr. Returns ()),
      CommunityData = (\<lambda>c m. Returns ()),
      ContextData = Returns (),
      getCmd = (\<lambda>h c oid. Returns (None, 0, 0, [(oid, v)])),
      setCmd = (\<lambda>h c oid w. Returns (None, 0, 0, [(oid, w)]))\<rparr>"

definition lib_raising :: "string \<Rightarrow> hlapi" where
  "lib_raising d =
     \<lparr>SnmpEngine = Returns (),
      UdpTransportTarget = (\<lambda>addr. Returns ()),
      CommunityData = (\<lambda>c m. Returns ()),
      ContextData = Returns (),
      getCmd = (\<lambda>h c oid. Raises d),
      setCmd = (\<lambda>h c oid w. Raises d)\<rparr>"

definition lib_unreachable :: "string \<Rightarrow> hlapi" where
  "lib_unreachable d =
     \<lparr>SnmpEngine = Returns (),
      UdpTransportTarget = (\<lambda>addr. Raises d),
      CommunityData = (\<lambda>c m. Returns ()),
      ContextData = Returns (),
      getCmd = (\<lambda>h c oid. Returns (None, 0, 0, [(oid, 1)])),
      setCmd = (\<lambda>h c oid w. Returns (None, 0, 0, [(oid, w)]))\<rparr>"

section \<open>Vocabulary of the statements\<close>

text \<open>\<^verbatim>\<open>isinstance(e, ExecutionError)\<close>.\<close>

fun is_ExecutionError :: "exn \<Rightarrow> bool" where
  "is_ExecutionError (ExecutionError _) = True"
| "is_ExecutionError _ = False"

text \<open>
  The operation kinds and the address each one resolves to: the address expression of
  \<^verbatim>\<open>power_get\<close> for a read, that of \<^verbatim>\<open>power_set\<close> for a write, where
  \<^verbatim>\<open>id = 4 if int(value) else 3\<close> and \<^verbatim>\<open>int(True) = 1\<close>, \<^verbatim>\<open>int(False) = 0\<close>.
\<close>

datatype operation = ReadStatus | WriteControl bool

fun address_of :: "operation \<Rightarrow> int \<Rightarrow> string" where
  "address_of ReadStatus i = output_status_oid i"
| "address_of (WriteControl on) i =
     outlet_control_oid (if (if on then 1 else 0) \<noteq> (0::int) then 4 else 3) i"

section \<open>Decimal rendering\<close>

lemma of_char_digit_chr: "d < 10 \<Longrightarrow> (of_char (digit_chr d) :: nat) = 48 + d"
  by (simp add: digit_chr_def)

lemma digit_chr_inj: "a < 10 \<Longrightarrow> b < 10 \<Longrightarrow> digit_chr a = digit_chr b \<Longrightarrow> a = b"
  by (metis of_char_digit_chr add_left_cancel)

lemma py_str_nat_small: "n < 10 \<Longrightarrow> py_str_nat n = [digit_chr n]"
  by simp

lemma py_str_nat_big: "10 \<le> n \<Longrightarrow> py_str_nat n = py_str_nat (n div 10) @ [digit_chr (n mod 10)]"
  by simp

lemma py_str_nat_nonempty: "py_str_nat n \<noteq> []"
  by (subst py_str_nat.simps) simp

lemma digit_chr_3: "digit_chr 3 = CHR ''3''"
  by code_simp

lemma digit_chr_4: "digit_chr 4 = CHR ''4''"
  by code_simp

lemma py_str_3: "py_str 3 = ''3''"
  by (simp add: py_str_def digit_chr_3)

lemma py_str_4: "py_str 4 = ''4''"
  by (simp add: py_str_def digit_chr_4)

declare py_str_nat.simps [simp del]

lemma py_str_nat_inj: "py_str_nat n = py_str_nat m \<Longrightarrow> n = m"
proof (induction n arbitrary: m rule: py_str_nat.induct)
  case (1 n)
  show ?case
  proof (cases "10 \<le> n")
    case nbig: True
    note en = py_str_nat_big [OF nbig]
    show ?thesis
    proof (cases "10 \<le> m")
      case True
      note em = py_str_nat_big [OF True]
      from "1.prems" have "py_str_nat (n div 10) @ [digit_chr (n mod 10)]
          = py_str_nat (m div 10) @ [digit_chr (m mod 10)]"
        by (simp only: en em)
      then have eq: "py_str_nat (n div 10) = py_str_nat (m div 10)"
        and d: "digit_chr (n mod 10) = digit_chr (m mod 10)"
        by simp_all
      from "1.IH" [OF nbig eq] have "n div 10 = m div 10" .
      moreover have "n mod 10 = m mod 10"
        using digit_chr_inj [OF _ _ d] by simp
      ultimately show ?thesis by (metis div_mult_mod_eq)
    next
      case False
      then have "m < 10" by simp
      then have em: "py_str_nat m = [digit_chr m]" by (rule py_str_nat_small)
      from "1.prems" have "py_str_nat (n div 10) @ [digit_chr (n mod 10)] = [digit_chr m]"
        by (simp only: en em)
      with py_str_nat_nonempty [of "n div 10"] show ?thesis by simp
    qed
  next
    case nsmall: False
    then have n: "n < 10" by simp
    then have en: "py_str_nat n = [digit_chr n]" by (rule py_str_nat_small)
    show ?thesis
    proof (cases "10 \<le> m")
      case True
      note em = py_str_nat_big [OF True]
      from "1.prems" have "[digit_chr n] = py_str_nat (m div 10) @ [digit_chr (m mod 10)]"
        by (simp only: en em)
      with py_str_nat_nonempty [of "m div 10"] show ?thesis by simp
    next
      case False
      then have m: "m < 10" by simp
      then have em: "py_str_nat m = [digit_chr m]" by (rule py_str_nat_small)
      from "1.prems" have "digit_chr n = digit_chr m"
        by (simp only: en em list.inject)
      with n m show ?thesis by (rule digit_chr_inj)
    qed
  qed
qed

lemma py_str_inj: "0 \<le> i \<Longrightarrow> 0 \<le> j \<Longrightarrow> py_str i = py_str j \<Longrightarrow> i = j"
proof -
  assume i: "0 \<le> i" and j: "0 \<le> j" and eq: "py_str i = py_str j"
  then have "py_str_nat (nat i) = py_str_nat (nat j)" by (simp add: py_str_def)
  then have "nat i = nat j" by (rule py_str_nat_inj)
  with i j show "i = j" by simp
qed

section \<open>Sequencing\<close>

lemma and_then_raised: "and_then (t, Inl e) f = (t, Inl e)"
  by (simp add: and_then_def)

lemma and_then_returned: "and_then (t, Inr x) f = (t @ fst (f x), snd (f x))"
  by (simp add: and_then_def split: prod.splits)

lemma and_then_Inl:
  assumes "snd (and_then m f) = Inl e"
  shows "snd m = Inl e \<or> (\<exists>x. snd m = Inr x \<and> snd (f x) = Inl e)"
proof (cases m)
  case (Pair t r)
  with assms show ?thesis
    by (cases r) (simp_all add: and_then_raised and_then_returned)
qed

section \<open>The session and the two entry points, step by step\<close>

lemmas hlapi_calls =
  hlapi_SnmpEngine_def hlapi_UdpTransportTarget_def hlapi_CommunityData_def
  hlapi_ContextData_def hlapi_getCmd_def hlapi_setCmd_def library_call_def

lemma Snmp_init_ok:
  assumes "snd (Snmp_init lib host comm) = Inr s"
  shows "Snmp_init lib host comm =
     ([NewEngine, NewTransport host 161, NewCommunity comm 0, NewContext],
      Inr \<lparr>transport = (host, 161), community = comm\<rparr>)"
  using assms
  by (simp add: Snmp_init_def hlapi_calls and_then_def returns_def split: reply.splits)

lemma Snmp_init_first: "\<exists>t. fst (Snmp_init lib host comm) = NewEngine # t"
  by (simp add: Snmp_init_def hlapi_calls and_then_def returns_def split: reply.splits)

lemma Snmp_init_not_ExecutionError:
  "snd (Snmp_init lib host comm) = Inl e \<Longrightarrow> \<not> is_ExecutionError e"
  by (auto simp add: Snmp_init_def hlapi_calls and_then_def returns_def split: reply.splits)

lemma Snmp_get_eq:
  "Snmp_get lib \<lparr>transport = (host, p), community = comm\<rparr> oid =
     ([GetCmd host comm oid],
      case getCmd lib host comm oid of
        Raises d \<Rightarrow> Inl (HlapiError d)
      | Returns (ei, es, ex, res) \<Rightarrow>
          (case res of [] \<Rightarrow> Inl IndexError | vb # _ \<Rightarrow> Inr (snd vb)))"
  by (simp add: Snmp_get_def hlapi_calls and_then_def returns_def raises_def
      split: reply.splits list.splits)

lemma Snmp_set_eq:
  "Snmp_set lib \<lparr>transport = (host, p), community = comm\<rparr> oid v =
     ([SetCmd host comm oid v],
      case setCmd lib host comm oid v of
        Raises d \<Rightarrow> Inl (HlapiError d)
      | Returns r \<Rightarrow> Inr ())"
  by (simp add: Snmp_set_def hlapi_calls and_then_def returns_def split: reply.splits)

lemma Snmp_get_not_ExecutionError:
  "snd (Snmp_get lib s oid) = Inl e \<Longrightarrow> \<not> is_ExecutionError e"
  by (auto simp add: Snmp_get_def hlapi_calls and_then_def returns_def raises_def
      split: reply.splits list.splits)

lemma Snmp_set_not_ExecutionError:
  "snd (Snmp_set lib s oid w) = Inl e \<Longrightarrow> \<not> is_ExecutionError e"
  by (auto simp add: Snmp_set_def hlapi_calls and_then_def returns_def split: reply.splits)

lemma py_int_not_ExecutionError:
  "py_int x = Inl e \<Longrightarrow> \<not> is_ExecutionError e"
  by (induction x rule: py_int.induct) (auto split: option.splits)

lemma power_set_valid:
  assumes "py_int index = Inr i" and "1 \<le> i" and "i \<le> 16"
    and "snd (Snmp_init lib host ''public'') = Inr s" and "py_int val = Inr v"
  shows "power_set lib host PyNone index val =
     ([NewEngine, NewTransport host 161, NewCommunity ''public'' 0, NewContext,
       SetCmd host ''public'' (outlet_control_oid (if v \<noteq> 0 then 4 else 3) i) 1],
      case setCmd lib host ''public'' (outlet_control_oid (if v \<noteq> 0 then 4 else 3) i) 1 of
        Raises d \<Rightarrow> Inl (HlapiError d)
      | Returns r \<Rightarrow> Inr ())"
  using assms(1,2,3,5)
  by (simp add: power_set_def py_assert_def builtin_def returns_def and_then_returned
      Snmp_init_ok [OF assms(4)] Snmp_set_eq NUMBER_OF_OUTLETS_def Let_def)

lemma power_set_unconverted:
  assumes "py_int index = Inr i" and "1 \<le> i" and "i \<le> 16"
    and "snd (Snmp_init lib host ''public'') = Inr s" and "py_int val = Inl e"
  shows "power_set lib host PyNone index val =
     ([NewEngine, NewTransport host 161, NewCommunity ''public'' 0, NewContext], Inl e)"
  using assms(1,2,3,5)
  by (simp add: power_set_def py_assert_def builtin_def returns_def and_then_returned
      and_then_raised Snmp_init_ok [OF assms(4)] NUMBER_OF_OUTLETS_def)

lemma power_get_valid:
  assumes "py_int index = Inr i" and "1 \<le> i" and "i \<le> 16"
    and "snd (Snmp_init lib host ''public'') = Inr s"
  shows "power_get lib host PyNone index =
     ([NewEngine, NewTransport host 161, NewCommunity ''public'' 0, NewContext,
       GetCmd host ''public'' (output_status_oid i)],
      case getCmd lib host ''public'' (output_status_oid i) of
        Raises d \<Rightarrow> Inl (HlapiError d)
      | Returns (ei, es, ex, res) \<Rightarrow>
          (case res of
             [] \<Rightarrow> Inl IndexError
           | vb # _ \<Rightarrow>
               if snd vb = 1 then Inr True
               else if snd vb = 0 then Inr False
               else if snd vb = 3 then Inr True
               else if snd vb = 2 then Inr False
               else Inl (ExecutionError ''failed to get SNMP value'')))"
  using assms(1,2,3)
  by (simp add: power_get_def py_assert_def builtin_def returns_def raises_def and_then_returned
      and_then_raised Snmp_init_ok [OF assms(4)] Snmp_get_eq NUMBER_OF_OUTLETS_def Let_def
      split: reply.splits list.splits)

lemma power_set_out_of_range:
  assumes "py_int index = Inr i" "i < 1 \<or> 16 < i"
  shows "power_set lib host port index val = ([], Inl AssertionError)"
  using assms
  by (auto simp add: power_set_def py_assert_def builtin_def returns_def raises_def
      and_then_returned and_then_raised NUMBER_OF_OUTLETS_def)

lemma power_get_out_of_range:
  assumes "py_int index = Inr i" "i < 1 \<or> 16 < i"
  shows "power_get lib host port index = ([], Inl AssertionError)"
  using assms
  by (auto simp add: power_get_def py_assert_def builtin_def returns_def raises_def
      and_then_returned and_then_raised NUMBER_OF_OUTLETS_def)

lemma lib_answering_opens:
  "snd (Snmp_init (lib_answering v) host comm) = Inr \<lparr>transport = (host, 161), community = comm\<rparr>"
  by (simp add: Snmp_init_def hlapi_calls and_then_def returns_def lib_answering_def)

lemma lib_raising_opens:
  "snd (Snmp_init (lib_raising d) host comm) = Inr \<lparr>transport = (host, 161), community = comm\<rparr>"
  by (simp add: Snmp_init_def hlapi_calls and_then_def returns_def lib_raising_def)

lemma lib_unreachable_init:
  "Snmp_init (lib_unreachable d) host comm = ([NewEngine, NewTransport host 161], Inl (HlapiError d))"
  by (simp add: Snmp_init_def hlapi_calls and_then_def returns_def lib_unreachable_def)

lemma Snmp_init_session:
  assumes "snd (Snmp_init lib host comm) = Inr s"
  shows "s = \<lparr>transport = (host, 161), community = comm\<rparr>"
  using assms Snmp_init_ok [OF assms] by simp

lemma Snmp_init_raises_HlapiError:
  "snd (Snmp_init lib host comm) = Inl e \<Longrightarrow> \<exists>d. e = HlapiError d"
  by (auto simp add: Snmp_init_def hlapi_calls and_then_def returns_def split: reply.splits)

lemma power_get_init_failed:
  assumes "py_int index = Inr i" and "1 \<le> i" and "i \<le> 16"
    and "snd (Snmp_init lib host ''public'') = Inl e"
  shows "power_get lib host PyNone index = (fst (Snmp_init lib host ''public''), Inl e)"
proof -
  from assms(4) have "Snmp_init lib host ''public'' = (fst (Snmp_init lib host ''public''), Inl e)"
    by (metis prod.collapse)
  then have "and_then (Snmp_init lib host ''public'') f = (fst (Snmp_init lib host ''public''), Inl e)"
    for f :: "Snmp \<Rightarrow> bool run"
    by (metis and_then_raised)
  with assms(1-3) show ?thesis
    by (simp add: power_get_def py_assert_def builtin_def returns_def and_then_returned
        NUMBER_OF_OUTLETS_def)
qed

lemma power_set_init_failed:
  assumes "py_int index = Inr i" and "1 \<le> i" and "i \<le> 16"
    and "snd (Snmp_init lib host ''public'') = Inl e"
  shows "power_set lib host PyNone index val = (fst (Snmp_init lib host ''public''), Inl e)"
proof -
  from assms(4) have "Snmp_init lib host ''public'' = (fst (Snmp_init lib host ''public''), Inl e)"
    by (metis prod.collapse)
  then have "and_then (Snmp_init lib host ''public'') f = (fst (Snmp_init lib host ''public''), Inl e)"
    for f :: "Snmp \<Rightarrow> unit run"
    by (metis and_then_raised)
  with assms(1-3) show ?thesis
    by (simp add: power_set_def py_assert_def builtin_def returns_def and_then_returned
        NUMBER_OF_OUTLETS_def)
qed

lemma power_get_accepted:
  assumes "py_int index = Inr i" and "1 \<le> i" and "i \<le> 16"
  shows "snd (power_get lib host PyNone index) \<noteq> Inl AssertionError"
proof (cases "snd (Snmp_init lib host ''public'')")
  case (Inl e)
  with Snmp_init_raises_HlapiError [OF Inl] power_get_init_failed [OF assms Inl]
  show ?thesis by auto
next
  case (Inr s)
  show ?thesis
    by (simp add: power_get_valid [OF assms Inr] split: reply.splits list.splits)
qed

lemma power_set_accepted:
  assumes "py_int index = Inr i" and "1 \<le> i" and "i \<le> 16" and "py_int val = Inr v"
  shows "snd (power_set lib host PyNone index val) \<noteq> Inl AssertionError"
proof (cases "snd (Snmp_init lib host ''public'')")
  case (Inl e)
  with Snmp_init_raises_HlapiError [OF Inl] power_set_init_failed [OF assms(1-3) Inl]
  show ?thesis by auto
next
  case (Inr s)
  show ?thesis
    by (simp add: power_set_valid [OF assms(1-3) Inr assms(4)] split: reply.splits)
qed

lemma power_get_trace_nonempty:
  assumes "py_int index = Inr i" and "1 \<le> i" and "i \<le> 16"
  shows "fst (power_get lib host PyNone index) \<noteq> []"
proof (cases "snd (Snmp_init lib host ''public'')")
  case (Inl e)
  with Snmp_init_first [of lib host "''public''"] power_get_init_failed [OF assms Inl]
  show ?thesis by auto
next
  case (Inr s)
  show ?thesis by (simp add: power_get_valid [OF assms Inr])
qed

lemma power_set_trace_nonempty:
  assumes "py_int index = Inr i" and "1 \<le> i" and "i \<le> 16"
  shows "fst (power_set lib host PyNone index val) \<noteq> []"
proof (cases "snd (Snmp_init lib host ''public'')")
  case (Inl e)
  with Snmp_init_first [of lib host "''public''"] power_set_init_failed [OF assms Inl]
  show ?thesis by auto
next
  case (Inr s)
  show ?thesis
  proof (cases "py_int val")
    case e: (Inl e)
    show ?thesis by (simp add: power_set_unconverted [OF assms Inr e])
  next
    case v: (Inr v)
    show ?thesis by (simp add: power_set_valid [OF assms Inr v])
  qed
qed

lemma unreachable_host_no_exchange:
  "power_set (lib_unreachable d) host PyNone (PyInt 5) (PyBool True)
     = ([NewEngine, NewTransport host 161], Inl (HlapiError d))
   \<and> power_get (lib_unreachable d) host PyNone (PyInt 5)
     = ([NewEngine, NewTransport host 161], Inl (HlapiError d))"
proof -
  have i: "py_int (PyInt 5) = Inr 5"
    by simp
  have f: "snd (Snmp_init (lib_unreachable d) host ''public'') = Inl (HlapiError d)"
    by (simp add: lib_unreachable_init)
  show ?thesis
    by (simp add: power_set_init_failed [OF i _ _ f] power_get_init_failed [OF i _ _ f]
        lib_unreachable_init)
qed

section \<open>Port sentinel\<close>

text \<open>
  C7. A call of \<^verbatim>\<open>power_set\<close> or \<^verbatim>\<open>power_get\<close> whose port is not \<^verbatim>\<open>None\<close> fails with
  the assertion failure at once, whatever the index and the value are: nothing of the
  index is looked at, no session is created and no call into the library is made.
\<close>

theorem port_not_sentinel:
  assumes "port \<noteq> PyNone"
  shows "power_set lib host port index val = ([], Inl AssertionError)
       \<and> power_get lib host port index = ([], Inl AssertionError)"
  using assms
  by (simp add: power_set_def power_get_def py_assert_def raises_def and_then_raised)

theorem port_not_sentinel_witness:
  "PyInt 161 \<noteq> PyNone
   \<and> power_set (lib_answering 1) ''pdu'' (PyInt 161) (PyInt 5) (PyBool True) = ([], Inl AssertionError)
   \<and> power_get (lib_answering 1) ''pdu'' (PyInt 161) (PyInt 5) = ([], Inl AssertionError)"
  using port_not_sentinel [of "PyInt 161" "lib_answering 1" "''pdu''" "PyInt 5" "PyBool True"]
  by simp

section \<open>Index range\<close>

text \<open>
  C3. An outlet index whose integer conversion lies outside 1..16 (0 and 17 among them)
  makes \<^verbatim>\<open>power_set\<close> and \<^verbatim>\<open>power_get\<close> fail with the assertion failure, with an
  empty trace: no session object has been created and no call into the library has been
  made. This holds for every port, since a wrong port fails the same way one statement
  earlier.
\<close>

theorem index_out_of_range:
  assumes "py_int index = Inr i" and "i < 1 \<or> 16 < i"
  shows "power_set lib host port index val = ([], Inl AssertionError)
       \<and> power_get lib host port index = ([], Inl AssertionError)"
  using power_set_out_of_range [OF assms] power_get_out_of_range [OF assms] by simp

theorem index_out_of_range_witness:
  "py_int (PyInt 0) = Inr 0 \<and> ((0::int) < 1 \<or> (16::int) < 0)
   \<and> power_set (lib_answering 1) ''pdu'' PyNone (PyInt 0) (PyBool True) = ([], Inl AssertionError)
   \<and> power_get (lib_answering 1) ''pdu'' PyNone (PyInt 0) = ([], Inl AssertionError)
   \<and> py_int (PyInt 17) = Inr 17 \<and> ((17::int) < 1 \<or> (16::int) < 17)
   \<and> power_set (lib_answering 1) ''pdu'' PyNone (PyInt 17) (PyBool True) = ([], Inl AssertionError)
   \<and> power_get (lib_answering 1) ''pdu'' PyNone (PyInt 17) = ([], Inl AssertionError)"
  using index_out_of_range [of "PyInt 0" 0 "lib_answering 1" "''pdu''" PyNone "PyBool True"]
        index_out_of_range [of "PyInt 17" 17 "lib_answering 1" "''pdu''" PyNone "PyBool True"]
  by simp

text \<open>
  C9. The index goes through \<^verbatim>\<open>int()\<close> before the range check, in both functions: a
  finite float index is replaced by its truncation, and when the truncation lies in
  1..16 the call behaves as on that integer, is not refused by an assertion and, once
  the session is created, addresses that outlet. The double nearest to 16.9 is
  \<open>2378463553205043 / 2 ^ 47\<close>; it is not integral and is taken as outlet 16.
\<close>

theorem float_index_truncated:
  assumes "1 \<le> trunc_float m e" and "trunc_float m e \<le> 16"
  shows "power_get lib host PyNone (PyFloat (Finite m e))
           = power_get lib host PyNone (PyInt (trunc_float m e))
       \<and> power_set lib host PyNone (PyFloat (Finite m e)) val
           = power_set lib host PyNone (PyInt (trunc_float m e)) val
       \<and> snd (power_get lib host PyNone (PyFloat (Finite m e))) \<noteq> Inl AssertionError
       \<and> snd (power_set lib host PyNone (PyFloat (Finite m e)) (PyBool on)) \<noteq> Inl AssertionError
       \<and> (snd (Snmp_init lib host ''public'') = Inr s \<longrightarrow>
            fst (power_get lib host PyNone (PyFloat (Finite m e)))
              = [NewEngine, NewTransport host 161, NewCommunity ''public'' 0, NewContext,
                 GetCmd host ''public'' (output_status_oid (trunc_float m e))]
          \<and> fst (power_set lib host PyNone (PyFloat (Finite m e)) (PyBool on))
              = [NewEngine, NewTransport host 161, NewCommunity ''public'' 0, NewContext,
                 SetCmd host ''public''
                   (outlet_control_oid (if on then 4 else 3) (trunc_float m e)) 1])"
proof -
  have c: "py_int (PyFloat (Finite m e)) = Inr (trunc_float m e)"
    by simp
  have b: "py_int (PyBool on) = Inr (if on then 1 else 0)"
    by simp
  have g: "power_get lib host PyNone (PyFloat (Finite m e))
      = power_get lib host PyNone (PyInt (trunc_float m e))"
    by (simp add: power_get_def)
  have s: "power_set lib host PyNone (PyFloat (Finite m e)) val
      = power_set lib host PyNone (PyInt (trunc_float m e)) val"
    by (simp add: power_set_def)
  have ag: "snd (power_get lib host PyNone (PyFloat (Finite m e))) \<noteq> Inl AssertionError"
    by (rule power_get_accepted [OF c assms])
  have as: "snd (power_set lib host PyNone (PyFloat (Finite m e)) (PyBool on)) \<noteq> Inl AssertionError"
    by (rule power_set_accepted [OF c assms b])
  have t: "fst (power_get lib host PyNone (PyFloat (Finite m e)))
              = [NewEngine, NewTransport host 161, NewCommunity ''public'' 0, NewContext,
                 GetCmd host ''public'' (output_status_oid (trunc_float m e))]
          \<and> fst (power_set lib host PyNone (PyFloat (Finite m e)) (PyBool on))
              = [NewEngine, NewTransport host 161, NewCommunity ''public'' 0, NewContext,
                 SetCmd host ''public''
                   (outlet_control_oid (if on then 4 else 3) (trunc_float m e)) 1]"
    if o: "snd (Snmp_init lib host ''public'') = Inr s"
    by (simp add: power_get_valid [OF c assms o] power_set_valid [OF c assms o b])
  from g s ag as t show ?thesis by blast
qed

theorem float_index_truncated_witness:
  "(1::int) \<le> trunc_float 2378463553205043 (- 47)
   \<and> trunc_float 2378463553205043 (- 47) = 16
   \<and> 2378463553205043 mod (2 ^ 47 :: int) \<noteq> 0
   \<and> snd (Snmp_init (lib_answering 1) ''pdu'' ''public'')
       = Inr \<lparr>transport = (''pdu'', 161), community = ''public''\<rparr>
   \<and> fst (power_get (lib_answering 1) ''pdu'' PyNone (PyFloat (Finite 2378463553205043 (- 47))))
       = [NewEngine, NewTransport ''pdu'' 161, NewCommunity ''public'' 0, NewContext,
          GetCmd ''pdu'' ''public'' (output_status_oid 16)]
   \<and> fst (power_set (lib_answering 1) ''pdu'' PyNone (PyFloat (Finite 2378463553205043 (- 47))) (PyBool True))
       = [NewEngine, NewTransport ''pdu'' 161, NewCommunity ''public'' 0, NewContext,
          SetCmd ''pdu'' ''public'' (outlet_control_oid 4 16) 1]"
proof -
  have t: "trunc_float 2378463553205043 (- 47) = 16"
    by (simp add: trunc_float_def)
  have h: "1 \<le> trunc_float 2378463553205043 (- 47)" "trunc_float 2378463553205043 (- 47) \<le> 16"
    by (simp_all add: t)
  have n: "2378463553205043 mod (2 ^ 47 :: int) \<noteq> 0"
    by simp
  note o = lib_answering_opens [of 1 "''pdu''" "''public''"]
  note w = float_index_truncated [OF h, of "lib_answering 1" "''pdu''" "PyBool True" True
      "\<lparr>transport = (''pdu'', 161), community = ''public''\<rparr>"]
  note wt = w [THEN conjunct2, THEN conjunct2, THEN conjunct2, THEN conjunct2, THEN mp, OF o,
      unfolded t if_True]
  from wt t h n o show ?thesis by blast
qed

section \<open>Writing\<close>

text \<open>
  C2. For an outlet index in 1..16 and either desired state, once the session is
  created, \<^verbatim>\<open>power_set\<close> makes exactly one call of \<^verbatim>\<open>setCmd\<close> and none of
  \<^verbatim>\<open>getCmd\<close>, and its outcome is the outcome of that call. The value written is 1 for
  on and for off alike, and the two requests differ in the address only: sub-object 4
  for on, sub-object 3 for off. What the library would answer to a read has no
  influence on the call.
\<close>

theorem set_one_write:
  assumes "1 \<le> i" and "i \<le> 16" and "snd (Snmp_init lib host ''public'') = Inr s"
  shows "power_set lib host PyNone (PyInt i) (PyBool on)
           = ([NewEngine, NewTransport host 161, NewCommunity ''public'' 0, NewContext,
               SetCmd host ''public'' (OID @ (if on then ''.4.0.'' else ''.3.0.'') @ py_str i) 1],
              case setCmd lib host ''public''
                     (OID @ (if on then ''.4.0.'' else ''.3.0.'') @ py_str i) 1 of
                Raises d \<Rightarrow> Inl (HlapiError d)
              | Returns r \<Rightarrow> Inr ())
       \<and> OID @ ''.4.0.'' @ py_str i \<noteq> OID @ ''.3.0.'' @ py_str i
       \<and> power_set (lib\<lparr>getCmd := g\<rparr>) host PyNone (PyInt i) (PyBool on)
           = power_set lib host PyNone (PyInt i) (PyBool on)"
proof -
  have c: "py_int (PyInt i) = Inr i"
    by simp
  have b: "py_int (PyBool on) = Inr (if on then 1 else 0)"
    by simp
  have w: "power_set lib host PyNone (PyInt i) (PyBool on)
           = ([NewEngine, NewTransport host 161, NewCommunity ''public'' 0, NewContext,
               SetCmd host ''public'' (OID @ (if on then ''.4.0.'' else ''.3.0.'') @ py_str i) 1],
              case setCmd lib host ''public''
                     (OID @ (if on then ''.4.0.'' else ''.3.0.'') @ py_str i) 1 of
                Raises d \<Rightarrow> Inl (HlapiError d)
              | Returns r \<Rightarrow> Inr ())"
    by (simp add: power_set_valid [OF c assms b] outlet_control_oid_def py_str_3 py_str_4)
  have d: "OID @ ''.4.0.'' @ py_str i \<noteq> OID @ ''.3.0.'' @ py_str i"
    by simp
  have r: "power_set (lib\<lparr>getCmd := g\<rparr>) host PyNone (PyInt i) (PyBool on)
      = power_set lib host PyNone (PyInt i) (PyBool on)"
    by (simp add: power_set_def Snmp_init_def Snmp_set_def hlapi_calls)
  from w d r show ?thesis by blast
qed

theorem set_one_write_witness:
  "(1::int) \<le> 5 \<and> (5::int) \<le> 16
   \<and> snd (Snmp_init (lib_answering 0) ''pdu'' ''public'')
       = Inr \<lparr>transport = (''pdu'', 161), community = ''public''\<rparr>
   \<and> power_set (lib_answering 0) ''pdu'' PyNone (PyInt 5) (PyBool True)
       = ([NewEngine, NewTransport ''pdu'' 161, NewCommunity ''public'' 0, NewContext,
           SetCmd ''pdu'' ''public'' (OID @ ''.4.0.'' @ py_str 5) 1], Inr ())
   \<and> power_set (lib_answering 0) ''pdu'' PyNone (PyInt 5) (PyBool False)
       = ([NewEngine, NewTransport ''pdu'' 161, NewCommunity ''public'' 0, NewContext,
           SetCmd ''pdu'' ''public'' (OID @ ''.3.0.'' @ py_str 5) 1], Inr ())"
proof -
  note o = lib_answering_opens [of 0 "''pdu''" "''public''"]
  have a: "setCmd (lib_answering 0) h c oid w = Returns (None, 0, 0, [(oid, w)])" for h c oid w
    by (simp add: lib_answering_def)
  from set_one_write [of 5 "lib_answering 0" "''pdu''" _ True, OF _ _ o]
       set_one_write [of 5 "lib_answering 0" "''pdu''" _ False, OF _ _ o] o
  show ?thesis by (simp add: a)
qed

text \<open>
  C10, as stated, at the value \<^verbatim>\<open>None\<close>: the value is refused with a \<open>TypeError\<close>,
  after the session has been created and before any write.
\<close>

theorem set_selector_counterexample:
  "power_set (lib_answering 0) ''pdu'' PyNone (PyInt 5) PyNone
     = ([NewEngine, NewTransport ''pdu'' 161, NewCommunity ''public'' 0, NewContext], Inl TypeError)"
  by (simp add: power_set_unconverted [of "PyInt 5" 5 "lib_answering 0" "''pdu''" _ PyNone TypeError]
      lib_answering_opens)

text \<open>
  C10, amended. \<^verbatim>\<open>power_set\<close> chooses the sub-object by the truth value of
  \<^verbatim>\<open>int(value)\<close>: every value whose integer conversion is not zero writes to sub-tree 4
  (turn on), every value whose integer conversion is zero writes to sub-tree 3 (turn
  off). No value that has an integer conversion is refused, boolean or not. A value
  that has none is refused with the exception of \<^verbatim>\<open>int()\<close>, after the session has been
  created and without any write.
\<close>

theorem set_selector_by_truthiness:
  assumes "py_int index = Inr i" and "1 \<le> i" and "i \<le> 16"
    and "snd (Snmp_init lib host ''public'') = Inr s"
  shows "(py_int val = Inr v \<longrightarrow>
            power_set lib host PyNone index val =
              ([NewEngine, NewTransport host 161, NewCommunity ''public'' 0, NewContext,
                SetCmd host ''public''
                  (OID @ ''.'' @ (if v \<noteq> 0 then ''4'' else ''3'') @ ''.0.'' @ py_str i) 1],
               case setCmd lib host ''public''
                      (OID @ ''.'' @ (if v \<noteq> 0 then ''4'' else ''3'') @ ''.0.'' @ py_str i) 1 of
                 Raises d \<Rightarrow> Inl (HlapiError d)
               | Returns r \<Rightarrow> Inr ()))
       \<and> (py_int val = Inl x \<longrightarrow>
            power_set lib host PyNone index val =
              ([NewEngine, NewTransport host 161, NewCommunity ''public'' 0, NewContext], Inl x))"
proof (intro conjI impI)
  assume c: "py_int val = Inr v"
  show "power_set lib host PyNone index val =
              ([NewEngine, NewTransport host 161, NewCommunity ''public'' 0, NewContext,
                SetCmd host ''public''
                  (OID @ ''.'' @ (if v \<noteq> 0 then ''4'' else ''3'') @ ''.0.'' @ py_str i) 1],
               case setCmd lib host ''public''
                      (OID @ ''.'' @ (if v \<noteq> 0 then ''4'' else ''3'') @ ''.0.'' @ py_str i) 1 of
                 Raises d \<Rightarrow> Inl (HlapiError d)
               | Returns r \<Rightarrow> Inr ())"
    by (simp add: power_set_valid [OF assms c] outlet_control_oid_def py_str_3 py_str_4)
next
  assume c: "py_int val = Inl x"
  show "power_set lib host PyNone index val =
      ([NewEngine, NewTransport host 161, NewCommunity ''public'' 0, NewContext], Inl x)"
    by (rule power_set_unconverted [OF assms c])
qed

theorem set_selector_by_truthiness_witness:
  "py_int (PyInt 5) = Inr 5 \<and> (1::int) \<le> 5 \<and> (5::int) \<le> 16
   \<and> snd (Snmp_init (lib_answering 0) ''pdu'' ''public'')
       = Inr \<lparr>transport = (''pdu'', 161), community = ''public''\<rparr>
   \<and> py_int (PyInt (- 2)) = Inr (- 2)
   \<and> power_set (lib_answering 0) ''pdu'' PyNone (PyInt 5) (PyInt (- 2))
       = ([NewEngine, NewTransport ''pdu'' 161, NewCommunity ''public'' 0, NewContext,
           SetCmd ''pdu'' ''public'' (OID @ ''.4.0.'' @ py_str 5) 1], Inr ())
   \<and> py_int (PyInt 0) = Inr 0
   \<and> power_set (lib_answering 0) ''pdu'' PyNone (PyInt 5) (PyInt 0)
       = ([NewEngine, NewTransport ''pdu'' 161, NewCommunity ''public'' 0, NewContext,
           SetCmd ''pdu'' ''public'' (OID @ ''.3.0.'' @ py_str 5) 1], Inr ())
   \<and> py_int (PyFloat NaN) = Inl ValueError
   \<and> power_set (lib_answering 0) ''pdu'' PyNone (PyInt 5) (PyFloat NaN)
       = ([NewEngine, NewTransport ''pdu'' 161, NewCommunity ''public'' 0, NewContext],
          Inl ValueError)"
proof -
  note o = lib_answering_opens [of 0 "''pdu''" "''public''"]
  have a: "setCmd (lib_answering 0) h c oid w = Returns (None, 0, 0, [(oid, w)])" for h c oid w
    by (simp add: lib_answering_def)
  have i: "py_int (PyInt 5) = Inr 5"
    by simp
  from set_selector_by_truthiness [OF i _ _ o, of "PyInt (- 2)" "- 2"]
       set_selector_by_truthiness [OF i _ _ o, of "PyInt 0" 0]
       set_selector_by_truthiness [OF i _ _ o, of "PyFloat NaN" _ ValueError] o
  show ?thesis by (simp add: a)
qed

section \<open>Reading\<close>

text \<open>
  C1, as stated, at the raw value 4: the exception raised carries the message
  \<^verbatim>\<open>failed to get SNMP value\<close>, not \<^verbatim>\<open>failed to get status value\<close>.
\<close>

theorem status_decoding_counterexample:
  "snd (power_get (lib_answering 4) ''pdu'' PyNone (PyInt 5))
     = Inl (ExecutionError ''failed to get SNMP value'')
   \<and> snd (power_get (lib_answering 4) ''pdu'' PyNone (PyInt 5))
     \<noteq> Inl (ExecutionError ''failed to get status value'')"
proof -
  have g: "getCmd (lib_answering 4) h c oid = Returns (None, 0, 0, [(oid, 4)])" for h c oid
    by (simp add: lib_answering_def)
  have i: "py_int (PyInt 5) = Inr 5"
    by simp
  show ?thesis
    by (simp add: power_get_valid [OF i _ _ lib_answering_opens] g)
qed

text \<open>
  C1, amended. For every integer raw status value \<open>v\<close> that the session read returns,
  \<^verbatim>\<open>power_get\<close> returns false for 0, true for 1, false for 2, true for 3, and for every
  other integer raises \<open>ExecutionError\<close> with the message \<^verbatim>\<open>failed to get SNMP value\<close>;
  no value is defaulted.
\<close>

theorem status_decoding:
  assumes "py_int index = Inr i" and "1 \<le> i" and "i \<le> 16"
    and "snd (Snmp_init lib host ''public'') = Inr s"
    and "getCmd lib host ''public'' (output_status_oid i) = Returns (ei, es, ex, (name, v) # rest)"
  shows "snd (power_get lib host PyNone index) =
     (if v = 0 then Inr False
      else if v = 1 then Inr True
      else if v = 2 then Inr False
      else if v = 3 then Inr True
      else Inl (ExecutionError ''failed to get SNMP value''))"
  using assms(5) by (simp add: power_get_valid [OF assms(1-4)])

theorem status_decoding_witness:
  "py_int (PyInt 5) = Inr 5 \<and> (1::int) \<le> 5 \<and> (5::int) \<le> 16
   \<and> snd (Snmp_init (lib_answering 3) ''pdu'' ''public'')
       = Inr \<lparr>transport = (''pdu'', 161), community = ''public''\<rparr>
   \<and> getCmd (lib_answering 3) ''pdu'' ''public'' (output_status_oid 5)
       = Returns (None, 0, 0, [(output_status_oid 5, 3)])
   \<and> snd (power_get (lib_answering 3) ''pdu'' PyNone (PyInt 5)) = Inr True"
proof -
  note o = lib_answering_opens [of 3 "''pdu''" "''public''"]
  have g: "getCmd (lib_answering 3) ''pdu'' ''public'' (output_status_oid 5)
       = Returns (None, 0, 0, [(output_status_oid 5, 3)])"
    by (simp add: lib_answering_def)
  have i: "py_int (PyInt 5) = Inr 5"
    by simp
  from status_decoding [OF i _ _ o g] o g show ?thesis by simp
qed

section \<open>Object addresses\<close>

lemma py_str_eq_iff: "0 \<le> i \<Longrightarrow> 0 \<le> j \<Longrightarrow> (py_str i = py_str j) = (i = j)"
  using py_str_inj by blast

lemma address_of_inj:
  assumes "0 \<le> i" and "0 \<le> j"
  shows "(address_of k i = address_of k' j) = (k = k' \<and> i = j)"
proof (cases k)
  case ReadStatus
  show ?thesis
  proof (cases k')
    case r: ReadStatus
    with ReadStatus assms show ?thesis
      by (simp add: output_status_oid_def py_str_eq_iff)
  next
    case (WriteControl b)
    with ReadStatus show ?thesis
      by (simp add: output_status_oid_def outlet_control_oid_def py_str_3 py_str_4)
  qed
next
  case (WriteControl a)
  show ?thesis
  proof (cases k')
    case ReadStatus
    with WriteControl show ?thesis
      by (simp add: output_status_oid_def outlet_control_oid_def py_str_3 py_str_4)
  next
    case w: (WriteControl b)
    with WriteControl assms show ?thesis
      by (simp add: outlet_control_oid_def py_str_3 py_str_4 py_str_eq_iff)
  qed
qed

text \<open>
  C5. For outlet indices in 1..16 the address that is read or written is a function of
  the operation kind and the index alone: whatever the library and the host are, once
  the session is created \<^verbatim>\<open>power_get\<close> reads \<open>address_of ReadStatus i\<close> and
  \<^verbatim>\<open>power_set\<close> writes \<open>address_of (WriteControl on) i\<close>. Two pairs of operation kind
  and index resolve to the same address only if they are the same pair.
\<close>

theorem address_unique:
  assumes "1 \<le> i" and "i \<le> 16" and "1 \<le> j" and "j \<le> 16"
  shows "(snd (Snmp_init lib host ''public'') = Inr s \<longrightarrow>
            fst (power_get lib host PyNone (PyInt i))
              = [NewEngine, NewTransport host 161, NewCommunity ''public'' 0, NewContext,
                 GetCmd host ''public'' (address_of ReadStatus i)]
          \<and> fst (power_set lib host PyNone (PyInt i) (PyBool on))
              = [NewEngine, NewTransport host 161, NewCommunity ''public'' 0, NewContext,
                 SetCmd host ''public'' (address_of (WriteControl on) i) 1])
       \<and> ((address_of k i = address_of k' j) = (k = k' \<and> i = j))"
proof -
  have c: "py_int (PyInt i) = Inr i"
    by simp
  have b: "py_int (PyBool on) = Inr (if on then 1 else 0)"
    by simp
  have t: "fst (power_get lib host PyNone (PyInt i))
              = [NewEngine, NewTransport host 161, NewCommunity ''public'' 0, NewContext,
                 GetCmd host ''public'' (address_of ReadStatus i)]
          \<and> fst (power_set lib host PyNone (PyInt i) (PyBool on))
              = [NewEngine, NewTransport host 161, NewCommunity ''public'' 0, NewContext,
                 SetCmd host ''public'' (address_of (WriteControl on) i) 1]"
    if o: "snd (Snmp_init lib host ''public'') = Inr s"
    by (simp add: power_get_valid [OF c assms(1,2) o] power_set_valid [OF c assms(1,2) o b])
  have u: "(address_of k i = address_of k' j) = (k = k' \<and> i = j)"
    using assms(1,3) by (intro address_of_inj) simp_all
  from t u show ?thesis by blast
qed

theorem address_unique_witness:
  "(1::int) \<le> 5 \<and> (5::int) \<le> 16 \<and> (1::int) \<le> 15 \<and> (15::int) \<le> 16
   \<and> address_of ReadStatus 5 \<noteq> address_of ReadStatus 15
   \<and> address_of ReadStatus 5 \<noteq> address_of (WriteControl True) 5
   \<and> address_of (WriteControl True) 5 \<noteq> address_of (WriteControl False) 5
   \<and> address_of (WriteControl False) 5 \<noteq> address_of (WriteControl False) 15
   \<and> snd (Snmp_init (lib_answering 0) ''pdu'' ''public'')
       = Inr \<lparr>transport = (''pdu'', 161), community = ''public''\<rparr>
   \<and> fst (power_get (lib_answering 0) ''pdu'' PyNone (PyInt 5))
       = [NewEngine, NewTransport ''pdu'' 161, NewCommunity ''public'' 0, NewContext,
          GetCmd ''pdu'' ''public'' (address_of ReadStatus 5)]"
  using address_unique [of 5 15 "lib_answering 0" "''pdu''" _ True ReadStatus ReadStatus]
        address_unique [of 5 5 "lib_answering 0" "''pdu''" _ True ReadStatus "WriteControl True"]
        address_unique [of 5 5 "lib_answering 0" "''pdu''" _ True "WriteControl True" "WriteControl False"]
        address_unique [of 5 15 "lib_answering 0" "''pdu''" _ True "WriteControl False" "WriteControl False"]
        lib_answering_opens [of 0 "''pdu''" "''public''"]
  by simp

text \<open>
  C6. For an accepted outlet index \<open>i\<close> the address has the shape
  \<^verbatim>\<open><base>.<subtree>.0.<index>\<close>: the base is the fixed vendor prefix
  \<^verbatim>\<open>.1.3.6.1.4.1.534.6.6.7.6.6.1\<close>, the sub-tree is 2 for the status and 4 or 3 for the
  control, the index is \<open>i\<close> in decimal. The outlet count is the constant 16: which
  indices get as far as the library depends neither on the library nor on the host.
\<close>

theorem address_shape:
  assumes "py_int index = Inr i" and "1 \<le> i" and "i \<le> 16"
  shows "(snd (Snmp_init lib host ''public'') = Inr s \<longrightarrow>
            fst (power_get lib host PyNone index)
              = [NewEngine, NewTransport host 161, NewCommunity ''public'' 0, NewContext,
                 GetCmd host ''public''
                   (''.1.3.6.1.4.1.534.6.6.7.6.6.1'' @ ''.'' @ ''2'' @ ''.0.'' @ py_str i)])
       \<and> (snd (Snmp_init lib host ''public'') = Inr s \<longrightarrow> py_int val = Inr v \<longrightarrow>
            fst (power_set lib host PyNone index val)
              = [NewEngine, NewTransport host 161, NewCommunity ''public'' 0, NewContext,
                 SetCmd host ''public''
                   (''.1.3.6.1.4.1.534.6.6.7.6.6.1'' @ ''.''
                      @ (if v \<noteq> 0 then ''4'' else ''3'') @ ''.0.'' @ py_str i) 1])
       \<and> NUMBER_OF_OUTLETS = 16
       \<and> ((fst (power_get lib host PyNone (PyInt j)) \<noteq> []) = (1 \<le> j \<and> j \<le> 16))
       \<and> ((fst (power_set lib host PyNone (PyInt j) (PyBool on)) \<noteq> []) = (1 \<le> j \<and> j \<le> 16))"
proof -
  have g: "fst (power_get lib host PyNone index)
      = [NewEngine, NewTransport host 161, NewCommunity ''public'' 0, NewContext,
         GetCmd host ''public''
           (''.1.3.6.1.4.1.534.6.6.7.6.6.1'' @ ''.'' @ ''2'' @ ''.0.'' @ py_str i)]"
    if o: "snd (Snmp_init lib host ''public'') = Inr s"
    by (simp add: power_get_valid [OF assms o] output_status_oid_def OID_def)
  have s: "fst (power_set lib host PyNone index val)
        = [NewEngine, NewTransport host 161, NewCommunity ''public'' 0, NewContext,
           SetCmd host ''public''
             (''.1.3.6.1.4.1.534.6.6.7.6.6.1'' @ ''.''
                @ (if v \<noteq> 0 then ''4'' else ''3'') @ ''.0.'' @ py_str i) 1]"
    if o: "snd (Snmp_init lib host ''public'') = Inr s" and c: "py_int val = Inr v"
    by (simp add: power_set_valid [OF assms o c] outlet_control_oid_def OID_def py_str_3 py_str_4)
  have n: "NUMBER_OF_OUTLETS = 16"
    by (simp add: NUMBER_OF_OUTLETS_def)
  have cj: "py_int (PyInt j) = Inr j"
    by simp
  have rg: "(fst (power_get lib host PyNone (PyInt j)) \<noteq> []) = (1 \<le> j \<and> j \<le> 16)"
  proof (cases "1 \<le> j \<and> j \<le> 16")
    case True
    then show ?thesis using power_get_trace_nonempty [OF cj, of lib host] by simp
  next
    case False
    then have "j < 1 \<or> 16 < j" by auto
    from power_get_out_of_range [OF cj this, of lib host PyNone] False show ?thesis by simp
  qed
  have rs: "(fst (power_set lib host PyNone (PyInt j) (PyBool on)) \<noteq> []) = (1 \<le> j \<and> j \<le> 16)"
  proof (cases "1 \<le> j \<and> j \<le> 16")
    case True
    then show ?thesis using power_set_trace_nonempty [OF cj, of lib host "PyBool on"] by simp
  next
    case False
    then have "j < 1 \<or> 16 < j" by auto
    from power_set_out_of_range [OF cj this, of lib host PyNone "PyBool on"] False
    show ?thesis by simp
  qed
  from g s n rg rs show ?thesis by blast
qed

theorem address_shape_witness:
  "py_int (PyStr ''12'') = Inr 12 \<and> (1::int) \<le> 12 \<and> (12::int) \<le> 16
   \<and> snd (Snmp_init (lib_answering 1) ''pdu'' ''public'')
       = Inr \<lparr>transport = (''pdu'', 161), community = ''public''\<rparr>
   \<and> fst (power_get (lib_answering 1) ''pdu'' PyNone (PyStr ''12''))
       = [NewEngine, NewTransport ''pdu'' 161, NewCommunity ''public'' 0, NewContext,
          GetCmd ''pdu'' ''public'' ''.1.3.6.1.4.1.534.6.6.7.6.6.1.2.0.12'']
   \<and> py_int (PyBool True) = Inr 1
   \<and> fst (power_set (lib_answering 1) ''pdu'' PyNone (PyStr ''12'') (PyBool True))
       = [NewEngine, NewTransport ''pdu'' 161, NewCommunity ''public'' 0, NewContext,
          SetCmd ''pdu'' ''public'' ''.1.3.6.1.4.1.534.6.6.7.6.6.1.4.0.12'' 1]"
proof -
  have a: "py_int (PyStr ''12'') = Inr 12"
    by code_simp
  have b: "py_str 12 = ''12''"
    by code_simp
  have c: "py_int (PyBool True) = Inr 1"
    by simp
  have h: "(1::int) \<le> 12" "(12::int) \<le> 16"
    by simp_all
  note o = lib_answering_opens [of 1 "''pdu''" "''public''"]
  note w = address_shape [OF a h, of "lib_answering 1" "''pdu''"
      "\<lparr>transport = (''pdu'', 161), community = ''public''\<rparr>" "PyBool True" 1 0 True]
  note wg = w [THEN conjunct1, THEN mp, OF o]
  note ws = w [THEN conjunct2, THEN conjunct1, THEN mp, THEN mp, OF o c]
  have "fst (power_get (lib_answering 1) ''pdu'' PyNone (PyStr ''12''))
       = [NewEngine, NewTransport ''pdu'' 161, NewCommunity ''public'' 0, NewContext,
          GetCmd ''pdu'' ''public'' ''.1.3.6.1.4.1.534.6.6.7.6.6.1.2.0.12'']"
    using wg by (simp add: b)
  moreover have "fst (power_set (lib_answering 1) ''pdu'' PyNone (PyStr ''12'') (PyBool True))
       = [NewEngine, NewTransport ''pdu'' 161, NewCommunity ''public'' 0, NewContext,
          SetCmd ''pdu'' ''public'' ''.1.3.6.1.4.1.534.6.6.7.6.6.1.4.0.12'' 1]"
    using ws by (simp add: b)
  ultimately show ?thesis using a c h o by blast
qed

section \<open>Failures of the session\<close>

text \<open>
  C4, as stated, at a read that raises: what reaches the caller is the exception of the
  library, which is not an \<open>ExecutionError\<close>.
\<close>

theorem session_failure_counterexample:
  "snd (power_get (lib_raising ''timeout'') ''pdu'' PyNone (PyInt 5)) = Inl (HlapiError ''timeout'')
   \<and> \<not> is_ExecutionError (HlapiError ''timeout'')"
proof -
  have g: "getCmd (lib_raising ''timeout'') h c oid = Raises ''timeout''" for h c oid
    by (simp add: lib_raising_def)
  have i: "py_int (PyInt 5) = Inr 5"
    by simp
  show ?thesis
    by (simp add: power_get_valid [OF i _ _ lib_raising_opens] g)
qed

text \<open>
  C4, amended. For accepted arguments and a session that has been created, an exception
  raised by the read of the session in \<^verbatim>\<open>power_get\<close>, or by its write in
  \<^verbatim>\<open>power_set\<close>, reaches the caller unchanged, after that one exchange and in place of
  any result; it is the exception of the session and never an \<open>ExecutionError\<close>.
\<close>

theorem session_failure_propagates:
  assumes "py_int index = Inr i" and "1 \<le> i" and "i \<le> 16"
    and "snd (Snmp_init lib host ''public'') = Inr s"
  shows "(snd (Snmp_get lib s (output_status_oid i)) = Inl e \<longrightarrow>
            power_get lib host PyNone index
              = ([NewEngine, NewTransport host 161, NewCommunity ''public'' 0, NewContext,
                  GetCmd host ''public'' (output_status_oid i)], Inl e)
            \<and> \<not> is_ExecutionError e)
       \<and> (py_int val = Inr v \<longrightarrow>
          snd (Snmp_set lib s (outlet_control_oid (if v \<noteq> 0 then 4 else 3) i) 1) = Inl e \<longrightarrow>
            power_set lib host PyNone index val
              = ([NewEngine, NewTransport host 161, NewCommunity ''public'' 0, NewContext,
                  SetCmd host ''public'' (outlet_control_oid (if v \<noteq> 0 then 4 else 3) i) 1],
                 Inl e)
            \<and> \<not> is_ExecutionError e)"
proof (intro conjI impI)
  note s = Snmp_init_session [OF assms(4)]
  {
    assume f: "snd (Snmp_get lib s (output_status_oid i)) = Inl e"
    then show "power_get lib host PyNone index
        = ([NewEngine, NewTransport host 161, NewCommunity ''public'' 0, NewContext,
            GetCmd host ''public'' (output_status_oid i)], Inl e)"
      by (auto simp add: power_get_valid [OF assms] s Snmp_get_eq split: reply.splits list.splits)
    from f show "\<not> is_ExecutionError e"
      by (rule Snmp_get_not_ExecutionError)
  }
  {
    assume c: "py_int val = Inr v"
      and f: "snd (Snmp_set lib s (outlet_control_oid (if v \<noteq> 0 then 4 else 3) i) 1) = Inl e"
    from f show "power_set lib host PyNone index val
        = ([NewEngine, NewTransport host 161, NewCommunity ''public'' 0, NewContext,
            SetCmd host ''public'' (outlet_control_oid (if v \<noteq> 0 then 4 else 3) i) 1], Inl e)"
      by (auto simp add: power_set_valid [OF assms c] s Snmp_set_eq split: reply.splits)
    from f show "\<not> is_ExecutionError e"
      by (rule Snmp_set_not_ExecutionError)
  }
qed

theorem session_failure_propagates_witness:
  "py_int (PyInt 5) = Inr 5 \<and> (1::int) \<le> 5 \<and> (5::int) \<le> 16
   \<and> snd (Snmp_init (lib_raising ''timeout'') ''pdu'' ''public'')
       = Inr \<lparr>transport = (''pdu'', 161), community = ''public''\<rparr>
   \<and> snd (Snmp_get (lib_raising ''timeout'') \<lparr>transport = (''pdu'', 161), community = ''public''\<rparr>
            (output_status_oid 5))
       = Inl (HlapiError ''timeout'')
   \<and> power_get (lib_raising ''timeout'') ''pdu'' PyNone (PyInt 5)
       = ([NewEngine, NewTransport ''pdu'' 161, NewCommunity ''public'' 0, NewContext,
           GetCmd ''pdu'' ''public'' (output_status_oid 5)], Inl (HlapiError ''timeout''))
   \<and> py_int (PyBool True) = Inr 1
   \<and> snd (Snmp_set (lib_raising ''timeout'') \<lparr>transport = (''pdu'', 161), community = ''public''\<rparr>
            (outlet_control_oid 4 5) 1)
       = Inl (HlapiError ''timeout'')
   \<and> power_set (lib_raising ''timeout'') ''pdu'' PyNone (PyInt 5) (PyBool True)
       = ([NewEngine, NewTransport ''pdu'' 161, NewCommunity ''public'' 0, NewContext,
           SetCmd ''pdu'' ''public'' (outlet_control_oid 4 5) 1], Inl (HlapiError ''timeout''))"
proof -
  note o = lib_raising_opens [of "''timeout''" "''pdu''" "''public''"]
  have g: "getCmd (lib_raising ''timeout'') h c oid = Raises ''timeout''" for h c oid
    by (simp add: lib_raising_def)
  have w: "setCmd (lib_raising ''timeout'') h c oid x = Raises ''timeout''" for h c oid x
    by (simp add: lib_raising_def)
  have i: "py_int (PyInt 5) = Inr 5"
    by simp
  from session_failure_propagates [OF i _ _ o, of "HlapiError ''timeout''" "PyBool True" 1] o
  show ?thesis by (simp add: Snmp_get_eq Snmp_set_eq g w)
qed

text \<open>
  C8, as stated, on two hosts and two outlets: the errors raised are the same value, so
  neither the host nor the outlet can be read off them.
\<close>

theorem error_context_counterexample:
  "snd (power_get (lib_answering 9) ''pdu-a'' PyNone (PyInt 1))
     = Inl (ExecutionError ''failed to get SNMP value'')
   \<and> snd (power_get (lib_answering 9) ''pdu-b'' PyNone (PyInt 2))
     = Inl (ExecutionError ''failed to get SNMP value'')
   \<and> ''pdu-a'' \<noteq> ''pdu-b'' \<and> PyInt 1 \<noteq> PyInt 2"
proof -
  have g: "getCmd (lib_answering 9) h c oid = Returns (None, 0, 0, [(oid, 9)])" for h c oid
    by (simp add: lib_answering_def)
  have i: "py_int (PyInt 1) = Inr 1" and j: "py_int (PyInt 2) = Inr 2"
    by simp_all
  show ?thesis
    by (simp add: power_get_valid [OF i _ _ lib_answering_opens]
        power_get_valid [OF j _ _ lib_answering_opens] g)
qed

lemma power_get_ExecutionError:
  assumes "snd (power_get lib host port index) = Inl (ExecutionError msg)"
  shows "msg = ''failed to get SNMP value''"
proof (cases "port = PyNone")
  case False
  with assms show ?thesis
    by (simp add: power_get_def py_assert_def raises_def and_then_raised)
next
  case True
  show ?thesis
  proof (cases "py_int index")
    case (Inl e)
    with True assms have "e = ExecutionError msg"
      by (simp add: power_get_def py_assert_def returns_def builtin_def and_then_raised
          and_then_returned)
    with py_int_not_ExecutionError [OF Inl] show ?thesis by simp
  next
    case (Inr i)
    show ?thesis
    proof (cases "1 \<le> i \<and> i \<le> 16")
      case False
      then have "i < 1 \<or> 16 < i" by auto
      from power_get_out_of_range [OF Inr this, of lib host port] assms show ?thesis by simp
    next
      case r: True
      then have r1: "1 \<le> i" and r2: "i \<le> 16" by simp_all
      show ?thesis
      proof (cases "snd (Snmp_init lib host ''public'')")
        case (Inl e)
        from power_get_init_failed [OF Inr r1 r2 Inl] True assms have "e = ExecutionError msg"
          by simp
        with Snmp_init_not_ExecutionError [OF Inl] show ?thesis by simp
      next
        case o: (Inr s)
        from power_get_valid [OF Inr r1 r2 o] True assms show ?thesis
          by (auto split: reply.splits list.splits if_splits)
      qed
    qed
  qed
qed

lemma power_set_no_ExecutionError:
  "snd (power_set lib host port index val) \<noteq> Inl (ExecutionError msg)"
proof (cases "port = PyNone")
  case False
  then show ?thesis
    by (simp add: power_set_def py_assert_def raises_def and_then_raised)
next
  case True
  show ?thesis
  proof (cases "py_int index")
    case (Inl e)
    with py_int_not_ExecutionError [OF Inl] True show ?thesis
      by (auto simp add: power_set_def py_assert_def returns_def builtin_def and_then_raised
          and_then_returned)
  next
    case (Inr i)
    show ?thesis
    proof (cases "1 \<le> i \<and> i \<le> 16")
      case False
      then have "i < 1 \<or> 16 < i" by auto
      from power_set_out_of_range [OF Inr this, of lib host port val] show ?thesis by simp
    next
      case r: True
      then have r1: "1 \<le> i" and r2: "i \<le> 16" by simp_all
      show ?thesis
      proof (cases "snd (Snmp_init lib host ''public'')")
        case (Inl e)
        from power_set_init_failed [OF Inr r1 r2 Inl, of val] True
          Snmp_init_not_ExecutionError [OF Inl]
        show ?thesis by auto
      next
        case o: (Inr s)
        show ?thesis
        proof (cases "py_int val")
          case (Inl e)
          from power_set_unconverted [OF Inr r1 r2 o Inl] True py_int_not_ExecutionError [OF Inl]
          show ?thesis by auto
        next
          case c: (Inr v)
          from power_set_valid [OF Inr r1 r2 o c] True show ?thesis
            by (auto split: reply.splits)
        qed
      qed
    qed
  qed
qed

text \<open>
  C8, amended. Every \<open>ExecutionError\<close> that \<^verbatim>\<open>power_get\<close> raises carries the one fixed
  message \<^verbatim>\<open>failed to get SNMP value\<close>, for every host and every outlet index, and
  \<^verbatim>\<open>power_set\<close> raises no \<open>ExecutionError\<close> at all.
\<close>

theorem error_message_fixed:
  "(snd (power_get lib host port index) = Inl (ExecutionError msg)
      \<longrightarrow> msg = ''failed to get SNMP value'')
   \<and> snd (power_set lib host port index val) \<noteq> Inl (ExecutionError msg)"
  using power_get_ExecutionError power_set_no_ExecutionError by blast

theorem error_message_fixed_witness:
  "snd (power_get (lib_answering 9) ''pdu'' PyNone (PyInt 5))
     = Inl (ExecutionError ''failed to get SNMP value'')
   \<and> snd (power_set (lib_answering 9) ''pdu'' PyNone (PyInt 5) (PyBool True))
     \<noteq> Inl (ExecutionError ''failed to get SNMP value'')"
proof -
  have g: "getCmd (lib_answering 9) h c oid = Returns (None, 0, 0, [(oid, 9)])" for h c oid
    by (simp add: lib_answering_def)
  have i: "py_int (PyInt 5) = Inr 5"
    by simp
  have "snd (power_get (lib_answering 9) ''pdu'' PyNone (PyInt 5))
     = Inl (ExecutionError ''failed to get SNMP value'')"
    by (simp add: power_get_valid [OF i _ _ lib_answering_opens] g)
  with error_message_fixed [of "lib_answering 9" "''pdu''" PyNone "PyInt 5"
          "''failed to get SNMP value''" "PyBool True"]
  show ?thesis by simp
qed

end
